theory Spec2Isabelle
  imports Complex_Main "HOL-Library.Multiset" "HOL-Library.Sublist"
begin

unbundle bit_operations_syntax

section \<open>Array samples\<close>

text \<open>
  The notebooks compute on float64 arrays (xarray over numpy). A sample is a finite
  number, one of the two infinities, or not-a-number; xarray uses not-a-number as its
  marker for an absent sample. Finite samples are modelled as reals: rounding is not
  modelled. Zero is unsigned: the divisors of the notebooks are sums and differences of
  non-negative samples, which are never the negative zero.
\<close>

datatype fval = NegInf | Fin real | PosInf | NaN

text \<open>
  The order numpy sorts in: not-a-number comes after every number. It is the order of
  \<open>sort\<close> inside the median, not the order of the comparison
  operators, which are \<open>flt\<close>, \<open>fle\<close>, \<open>fgt\<close>, \<open>fge\<close> below.
\<close>

instantiation fval :: linorder
begin

fun less_eq_fval :: "fval \<Rightarrow> fval \<Rightarrow> bool" where
  "less_eq_fval NegInf _ = True"
| "less_eq_fval (Fin x) NegInf = False"
| "less_eq_fval (Fin x) (Fin y) = (x \<le> y)"
| "less_eq_fval (Fin x) _ = True"
| "less_eq_fval PosInf PosInf = True"
| "less_eq_fval PosInf NaN = True"
| "less_eq_fval PosInf _ = False"
| "less_eq_fval NaN NaN = True"
| "less_eq_fval NaN _ = False"

definition less_fval :: "fval \<Rightarrow> fval \<Rightarrow> bool" where
  "less_fval a b = (a \<le> b \<and> \<not> b \<le> a)"

instance
proof
  fix x y z :: fval
  show "(x < y) = (x \<le> y \<and> \<not> y \<le> x)"
    by (simp add: less_fval_def)
  show "x \<le> x"
    by (cases x) simp_all
  show "x \<le> y \<Longrightarrow> y \<le> z \<Longrightarrow> x \<le> z"
    by (cases x; cases y; cases z) simp_all
  show "x \<le> y \<Longrightarrow> y \<le> x \<Longrightarrow> x = y"
    by (cases x; cases y) simp_all
  show "x \<le> y \<or> y \<le> x"
    by (cases x; cases y) auto
qed

end

subsection \<open>Arithmetic\<close>

fun fneg :: "fval \<Rightarrow> fval" where
  "fneg NaN = NaN"
| "fneg PosInf = NegInf"
| "fneg NegInf = PosInf"
| "fneg (Fin x) = Fin (- x)"

fun fadd :: "fval \<Rightarrow> fval \<Rightarrow> fval" where
  "fadd NaN _ = NaN"
| "fadd _ NaN = NaN"
| "fadd (Fin x) (Fin y) = Fin (x + y)"
| "fadd PosInf NegInf = NaN"
| "fadd NegInf PosInf = NaN"
| "fadd PosInf _ = PosInf"
| "fadd _ PosInf = PosInf"
| "fadd NegInf _ = NegInf"
| "fadd _ NegInf = NegInf"

definition fsub :: "fval \<Rightarrow> fval \<Rightarrow> fval" where
  "fsub a b = fadd a (fneg b)"

fun fmul :: "fval \<Rightarrow> fval \<Rightarrow> fval" where
  "fmul NaN _ = NaN"
| "fmul _ NaN = NaN"
| "fmul (Fin x) (Fin y) = Fin (x * y)"
| "fmul (Fin x) PosInf = (if x = 0 then NaN else if 0 < x then PosInf else NegInf)"
| "fmul (Fin x) NegInf = (if x = 0 then NaN else if 0 < x then NegInf else PosInf)"
| "fmul PosInf (Fin y) = (if y = 0 then NaN else if 0 < y then PosInf else NegInf)"
| "fmul NegInf (Fin y) = (if y = 0 then NaN else if 0 < y then NegInf else PosInf)"
| "fmul PosInf PosInf = PosInf"
| "fmul NegInf NegInf = PosInf"
| "fmul PosInf NegInf = NegInf"
| "fmul NegInf PosInf = NegInf"

text \<open>
  Division does not raise: a non-zero number over zero is an infinity of the sign of the
  numerator, zero over zero is not-a-number.
\<close>

fun fdiv :: "fval \<Rightarrow> fval \<Rightarrow> fval" where
  "fdiv NaN _ = NaN"
| "fdiv _ NaN = NaN"
| "fdiv (Fin x) (Fin y) =
     (if y = 0 then (if x = 0 then NaN else if 0 < x then PosInf else NegInf)
      else Fin (x / y))"
| "fdiv (Fin x) _ = Fin 0"
| "fdiv PosInf (Fin y) = (if 0 \<le> y then PosInf else NegInf)"
| "fdiv NegInf (Fin y) = (if 0 \<le> y then NegInf else PosInf)"
| "fdiv _ _ = NaN"

subsection \<open>Comparisons\<close>

text \<open>
  The comparison operators on samples: every ordered comparison with not-a-number is
  false, and \<open>!=\<close> with not-a-number is true.
\<close>

definition flt :: "fval \<Rightarrow> fval \<Rightarrow> bool" where
  "flt a b = (a \<noteq> NaN \<and> b \<noteq> NaN \<and> a < b)"

definition fle :: "fval \<Rightarrow> fval \<Rightarrow> bool" where
  "fle a b = (a \<noteq> NaN \<and> b \<noteq> NaN \<and> a \<le> b)"

definition fgt :: "fval \<Rightarrow> fval \<Rightarrow> bool" where
  "fgt a b = flt b a"

definition fge :: "fval \<Rightarrow> fval \<Rightarrow> bool" where
  "fge a b = fle b a"

definition fne :: "fval \<Rightarrow> fval \<Rightarrow> bool" where
  "fne a b = (a = NaN \<or> b = NaN \<or> a \<noteq> b)"

subsection \<open>Masking and clipping\<close>

text \<open>\<open>where(cond)\<close> keeps a sample where the condition holds and makes it absent elsewhere.\<close>

definition xr_where :: "bool \<Rightarrow> fval \<Rightarrow> fval" where
  "xr_where c v = (if c then v else NaN)"

text \<open>
  \<open>clip(lo, hi)\<close> is the minimum with \<open>hi\<close> of the maximum with \<open>lo\<close>; not-a-number
  passes through.
\<close>

definition clip :: "real \<Rightarrow> real \<Rightarrow> fval \<Rightarrow> fval" where
  "clip lo hi v = (if v = NaN then NaN else min (max v (Fin lo)) (Fin hi))"

text \<open>\<open>fillna(0)\<close> on one sample.\<close>

definition fillna0 :: "fval \<Rightarrow> fval" where
  "fillna0 v = (if v = NaN then Fin 0 else v)"

section \<open>Datasets\<close>

text \<open>
  A Dataset maps band names to arrays over (time, y, x) that share one grid. It is
  modelled time-step by time-step: a time-step carries its time label and the pixels of
  the grid in row-major order (pixel \<open>(y, x)\<close> at position \<open>y * nx + x\<close>), and a pixel
  maps each band to its sample. Every time-step of a dataset holds the same number of
  pixels. A time label is a year and a day in it: loading groups the scenes by solar day.
\<close>

datatype band =
  Red | Green | Blue | Nir08 | Swir16 | Scl | QaPixel | Cloud
  | Ndvi | Ndwi | Mvi | Mndwi | Combined

type_synonym raw_pixel = "band \<Rightarrow> int"

type_synonym pixel = "band \<Rightarrow> fval"

type_synonym time = "nat \<times> nat"

type_synonym 'a dataset = "(time \<times> 'a list) list"

definition year :: "time \<Rightarrow> nat" where
  "year t = fst t"

datatype error = KeyError | IndexError | ValueError | AxisError

section \<open>Mask and normalize\<close>

subsection \<open>Sentinel-2, machine-learning notebook\<close>

text \<open>
  \<^verbatim>\<open>cloud_mask = ~data.scl.isin(mask_flags)\<close>,
  \<^verbatim>\<open>masked = data.where(cloud_mask)\<close>,
  \<^verbatim>\<open>scaled = (masked.where(masked != 0) * 0.0001).clip(0, 1)\<close>.
  The classification codes are the caller's; the notebook passes \<open>mask_flags\<close>.
\<close>

definition mask_flags :: "int list" where
  "mask_flags = [1, 3, 8, 9, 10]"

definition ml_cloud_mask :: "int list \<Rightarrow> raw_pixel \<Rightarrow> bool" where
  "ml_cloud_mask flags px = (\<not> (px Scl \<in> set flags))"

definition ml_masked :: "int list \<Rightarrow> raw_pixel \<Rightarrow> pixel" where
  "ml_masked flags px = (\<lambda>b. xr_where (ml_cloud_mask flags px) (Fin (of_int (px b))))"

definition ml_scaled :: "int list \<Rightarrow> raw_pixel \<Rightarrow> pixel" where
  "ml_scaled flags px =
     (\<lambda>b. clip 0 1
        (fmul (xr_where (fne (ml_masked flags px b) (Fin 0)) (ml_masked flags px b))
           (Fin 0.0001)))"

subsection \<open>Landsat, coastline notebook\<close>

text \<open>
  \<^verbatim>\<open>cloud_mask = (data.qa_pixel.astype(int) & bitflags) != 0\<close>,
  \<^verbatim>\<open>nodata = data.red == 0\<close>, \<^verbatim>\<open>mask = cloud_mask | nodata\<close>,
  \<^verbatim>\<open>scaled = (data.where(data != 0) * 0.0000275 + -0.2).clip(0, 1)\<close>,
  \<^verbatim>\<open>masked = scaled.where(~mask)\<close>.
\<close>

definition bitflags :: int where
  "bitflags = 24"

definition coast_cloud_mask :: "raw_pixel \<Rightarrow> bool" where
  "coast_cloud_mask px = ((px QaPixel AND bitflags) \<noteq> 0)"

definition coast_nodata :: "raw_pixel \<Rightarrow> bool" where
  "coast_nodata px = (px Red = 0)"

definition coast_mask :: "raw_pixel \<Rightarrow> bool" where
  "coast_mask px = (coast_cloud_mask px \<or> coast_nodata px)"

definition coast_scaled :: "raw_pixel \<Rightarrow> pixel" where
  "coast_scaled px =
     (\<lambda>b. clip 0 1
        (fadd (fmul (xr_where (px b \<noteq> 0) (Fin (of_int (px b)))) (Fin 0.0000275))
           (Fin (- 0.2))))"

definition coast_masked :: "raw_pixel \<Rightarrow> pixel" where
  "coast_masked px = (\<lambda>b. xr_where (\<not> coast_mask px) (coast_scaled px b))"

subsection \<open>The stage on a whole dataset\<close>

definition ml_scaled_ds :: "int list \<Rightarrow> raw_pixel dataset \<Rightarrow> pixel dataset" where
  "ml_scaled_ds flags data = map (\<lambda>(t, scene). (t, map (ml_scaled flags) scene)) data"

definition coast_masked_ds :: "raw_pixel dataset \<Rightarrow> pixel dataset" where
  "coast_masked_ds data = map (\<lambda>(t, scene). (t, map coast_masked scene)) data"

section \<open>Indices\<close>

text \<open>
  The notebooks write the normalized difference of two bands inline, as
  \<^verbatim>\<open>(a - b) / (a + b)\<close>: NDVI of (nir08, red), NDWI of (green, nir08), MNDWI of
  (green, swir16).
\<close>

definition normalized_difference :: "fval \<Rightarrow> fval \<Rightarrow> fval" where
  "normalized_difference a b = fdiv (fsub a b) (fadd a b)"

definition ndvi :: "pixel \<Rightarrow> fval" where
  "ndvi px = normalized_difference (px Nir08) (px Red)"

definition ndwi :: "pixel \<Rightarrow> fval" where
  "ndwi px = normalized_difference (px Green) (px Nir08)"

definition mndwi :: "pixel \<Rightarrow> fval" where
  "mndwi px = normalized_difference (px Green) (px Swir16)"

text \<open>
  \<^verbatim>\<open>(((scaled.nir08 - scaled.green) / (scaled.swir16 - scaled.green)) * 0.1).clip(-1,1)\<close>
\<close>

definition mvi :: "pixel \<Rightarrow> fval" where
  "mvi px =
     clip (- 1) 1
       (fmul (fdiv (fsub (px Nir08) (px Green)) (fsub (px Swir16) (px Green))) (Fin 0.1))"

text \<open>The machine-learning notebook adds NDVI, NDWI and MVI to the scaled dataset.\<close>

definition ml_indices :: "pixel \<Rightarrow> pixel" where
  "ml_indices px = px(Ndvi := ndvi px, Ndwi := ndwi px, Mvi := mvi px)"

text \<open>
  The coastline notebook adds MNDWI, NDWI and their mean:
  \<^verbatim>\<open>(data_tide_masked.mndwi + data_tide_masked.ndwi) / 2\<close>.
\<close>

definition combined :: "pixel \<Rightarrow> fval" where
  "combined px = fdiv (fadd (mndwi px) (ndwi px)) (Fin 2)"

definition coast_indices :: "pixel \<Rightarrow> pixel" where
  "coast_indices px = px(Mndwi := mndwi px, Ndwi := ndwi px, Combined := combined px)"

section \<open>Temporal median\<close>

text \<open>
  \<open>median\<close> over the time axis skips absent samples: the samples of one pixel and band
  that are not not-a-number are sorted, the middle one is taken, or the mean of the two
  middle ones; with no sample left the result is absent.
\<close>

definition nanmedian :: "fval list \<Rightarrow> fval" where
  "nanmedian xs =
     (let ys = sort (filter (\<lambda>v. v \<noteq> NaN) xs); n = length ys in
      if n = 0 then NaN
      else if odd n then ys ! (n div 2)
      else fdiv (fadd (ys ! (n div 2 - 1)) (ys ! (n div 2))) (Fin 2))"

text \<open>
  \<^verbatim>\<open>scaled.median("time")\<close>, \<^verbatim>\<open>data_low.median("time")\<close>: one pixel per grid
  position, \<open>npix\<close> of them, each band reduced over the time-steps.
\<close>

definition median_time :: "nat \<Rightarrow> pixel dataset \<Rightarrow> pixel list" where
  "median_time npix ds =
     map (\<lambda>i. (\<lambda>b. nanmedian (map (\<lambda>(t, scene). (scene ! i) b) ds))) [0..<npix]"

text \<open>
  \<^verbatim>\<open>data_tide_masked[index_name].groupby("time.year").median()\<close>: the years in
  ascending order, each with the median of its time-steps for the one band.
\<close>

definition grouped_by_year :: "nat \<Rightarrow> band \<Rightarrow> pixel dataset \<Rightarrow> (nat \<times> fval list) list" where
  "grouped_by_year npix index_name ds =
     map (\<lambda>y. (y, map (\<lambda>px. px index_name)
                    (median_time npix (filter (\<lambda>(t, scene). year t = y) ds))))
       (sort (remdups (map (\<lambda>(t, scene). year t) ds)))"

section \<open>Tide selection\<close>

text \<open>
  Tide heights come from an external tide model, one finite height per time-step and
  pixel of the tide grid; they are modelled as reals.
\<close>

subsection \<open>High- and low-tide composites\<close>

text \<open>
  \<^verbatim>\<open>lowest, highest = tides_lowres.quantile([0.3, 0.7]).values\<close>
  The quantile of the library is computed in floating point over all samples of the
  series and raises on an empty one. It is a parameter here: a function from the
  samples and the requested quantiles to the values it returns, or to the error it
  raises. Unpacking into two names raises unless two values came back.
\<close>

definition lowest_highest ::
  "(real list \<Rightarrow> real list \<Rightarrow> error + fval list) \<Rightarrow> real dataset \<Rightarrow> error + fval \<times> fval" where
  "lowest_highest quantile tides_lowres =
     (case quantile (concat (map snd tides_lowres)) [0.3, 0.7] of
        Inl e \<Rightarrow> Inl e
      | Inr values \<Rightarrow>
          (case values of [lowest, highest] \<Rightarrow> Inr (lowest, highest) | _ \<Rightarrow> Inl ValueError))"

text \<open>
  The time axis of \<^verbatim>\<open>tides.where(cond, drop=True)\<close>: a time label stays when the
  condition holds at some pixel of its time-step.
\<close>

definition where_drop_time :: "(real \<Rightarrow> bool) \<Rightarrow> real dataset \<Rightarrow> time list" where
  "where_drop_time cond tides = map fst (filter (\<lambda>(t, vs). \<exists>v\<in>set vs. cond v) tides)"

text \<open>
  \<^verbatim>\<open>low_scenes = tides_lowres.where(tides_lowres < lowest, drop=True)\<close>,
  \<^verbatim>\<open>high_scenes = tides_lowres.where(tides_lowres > highest, drop=True)\<close>
\<close>

definition low_scenes :: "fval \<Rightarrow> real dataset \<Rightarrow> time list" where
  "low_scenes lowest tides_lowres = where_drop_time (\<lambda>v. flt (Fin v) lowest) tides_lowres"

definition high_scenes :: "fval \<Rightarrow> real dataset \<Rightarrow> time list" where
  "high_scenes highest tides_lowres = where_drop_time (\<lambda>v. fgt (Fin v) highest) tides_lowres"

text \<open>\<^verbatim>\<open>masked.sel(time=labels)\<close>: the time-steps with these labels; a missing label raises.\<close>

fun sel_time :: "'a dataset \<Rightarrow> time list \<Rightarrow> error + 'a dataset" where
  "sel_time ds [] = Inr []"
| "sel_time ds (t # ts) =
     (case map_of ds t of
        None \<Rightarrow> Inl KeyError
      | Some scene \<Rightarrow>
          (case sel_time ds ts of Inl e \<Rightarrow> Inl e | Inr rest \<Rightarrow> Inr ((t, scene) # rest)))"

text \<open>
  \<^verbatim>\<open>data_low = masked.sel(time=low_scenes.time)\<close>,
  \<^verbatim>\<open>data_high = masked.sel(time=high_scenes.time)\<close>
\<close>

definition data_low ::
  "(real list \<Rightarrow> real list \<Rightarrow> error + fval list) \<Rightarrow> 'a dataset \<Rightarrow> real dataset
     \<Rightarrow> error + 'a dataset" where
  "data_low quantile masked tides_lowres =
     (case lowest_highest quantile tides_lowres of
        Inl e \<Rightarrow> Inl e
      | Inr (lowest, highest) \<Rightarrow> sel_time masked (low_scenes lowest tides_lowres))"

definition data_high ::
  "(real list \<Rightarrow> real list \<Rightarrow> error + fval list) \<Rightarrow> 'a dataset \<Rightarrow> real dataset
     \<Rightarrow> error + 'a dataset" where
  "data_high quantile masked tides_lowres =
     (case lowest_highest quantile tides_lowres of
        Inl e \<Rightarrow> Inl e
      | Inr (lowest, highest) \<Rightarrow> sel_time masked (high_scenes highest tides_lowres))"

text \<open>What the spec asks of a middle-40% selection: strictly between the two boundaries.\<close>

definition spec_middle_scenes :: "fval \<Rightarrow> fval \<Rightarrow> real dataset \<Rightarrow> time list" where
  "spec_middle_scenes lowest highest tides_lowres =
     where_drop_time (\<lambda>v. fgt (Fin v) lowest \<and> flt (Fin v) highest) tides_lowres"

subsection \<open>Coastline notebook\<close>

text \<open>
  The cutoffs come from the external \<open>tide_cutoffs\<close>; they are parameters here.
  \<^verbatim>\<open>tide_bool = (tides_hires >= tide_cutoff_min) & (tides_hires <= tide_cutoff_max)\<close>
\<close>

definition tide_bool :: "real \<Rightarrow> real \<Rightarrow> real dataset \<Rightarrow> bool dataset" where
  "tide_bool tide_cutoff_min tide_cutoff_max tides_hires =
     map (\<lambda>(t, vs). (t, map (\<lambda>v. v \<ge> tide_cutoff_min \<and> v \<le> tide_cutoff_max) vs))
       tides_hires"

text \<open>\<^verbatim>\<open>.sum(dim=["x", "y"])\<close> of a boolean time-step counts its true pixels.\<close>

definition sum_xy :: "bool list \<Rightarrow> nat" where
  "sum_xy bs = length (filter (\<lambda>b. b) bs)"

text \<open>
  \<^verbatim>\<open>masked.sel(time=keep)\<close> with a boolean array keeps the time-steps at the true
  positions; the lengths must agree.
\<close>

definition sel_bool :: "'a dataset \<Rightarrow> bool list \<Rightarrow> error + 'a dataset" where
  "sel_bool ds keep =
     (if length keep = length ds then Inr (map fst (filter snd (zip ds keep)))
      else Inl IndexError)"

definition data_filtered ::
  "real \<Rightarrow> real \<Rightarrow> 'a dataset \<Rightarrow> real dataset \<Rightarrow> error + 'a dataset" where
  "data_filtered tide_cutoff_min tide_cutoff_max masked tides_hires =
     sel_bool masked
       (map (\<lambda>(t, bs). sum_xy bs > 0) (tide_bool tide_cutoff_min tide_cutoff_max tides_hires))"

text \<open>
  \<^verbatim>\<open>data_filtered.where(tide_bool)\<close>: the condition is aligned on the time labels,
  then applied pixel by pixel.
\<close>

definition where_ds :: "pixel dataset \<Rightarrow> bool dataset \<Rightarrow> pixel dataset" where
  "where_ds ds cond =
     concat (map (\<lambda>(t, scene).
        case map_of cond t of
          None \<Rightarrow> []
        | Some bs \<Rightarrow> [(t, map (\<lambda>(px, c). (\<lambda>b. xr_where c (px b))) (zip scene bs))]) ds)"

definition coast_grouped_by_year ::
  "nat \<Rightarrow> real \<Rightarrow> real \<Rightarrow> pixel dataset \<Rightarrow> real dataset \<Rightarrow> error + (nat \<times> fval list) list" where
  "coast_grouped_by_year npix tide_cutoff_min tide_cutoff_max masked tides_hires =
     (case data_filtered tide_cutoff_min tide_cutoff_max masked tides_hires of
        Inl e \<Rightarrow> Inl e
      | Inr filtered \<Rightarrow>
          Inr (grouped_by_year npix Combined
                 (map (\<lambda>(t, scene). (t, map coast_indices scene))
                    (where_ds filtered
                       (tide_bool tide_cutoff_min tide_cutoff_max tides_hires)))))"

section \<open>Training array\<close>

text \<open>
  A row of \<open>training_array\<close>: its index label, the numeric \<open>Class\<close> column and the
  values sampled from the composite. \<open>dropna()\<close> drops every row that has a missing
  value in any column.
\<close>

record training_row =
  row_index :: nat
  Class :: fval
  training_values :: "fval list"

definition isna_any :: "training_row \<Rightarrow> bool" where
  "isna_any r = (Class r = NaN \<or> NaN \<in> set (training_values r))"

definition dropna :: "training_row list \<Rightarrow> training_row list" where
  "dropna training_array = filter (\<lambda>r. \<not> isna_any r) training_array"

section \<open>Prediction\<close>

text \<open>
  \<^verbatim>\<open>median.to_array().stack(dims=["y", "x"]).transpose()\<close>: one row per pixel, in
  row-major order, one column per variable of the composite.
\<close>

definition ml_variables :: "band list" where
  "ml_variables = [Red, Green, Blue, Nir08, Swir16, Scl, Ndvi, Ndwi, Mvi]"

definition stacked_arrays :: "band list \<Rightarrow> pixel list \<Rightarrow> fval list list" where
  "stacked_arrays variables median = map (\<lambda>px. map px variables) median"

definition fillna :: "fval list list \<Rightarrow> fval list list" where
  "fillna rows = map (map fillna0) rows"

text \<open>The fitted classifier is external: a function from a feature vector to a label.\<close>

definition predict :: "(fval list \<Rightarrow> 'c) \<Rightarrow> fval list list \<Rightarrow> 'c list" where
  "predict model rows = map model rows"

text \<open>\<^verbatim>\<open>predicted.reshape(len(median.y), len(median.x))\<close> raises when the sizes differ.\<close>

definition reshape :: "nat \<Rightarrow> nat \<Rightarrow> 'a list \<Rightarrow> error + 'a list list" where
  "reshape ny nx flat =
     (if length flat = ny * nx then Inr (map (\<lambda>y. take nx (drop (y * nx) flat)) [0..<ny])
      else Inl ValueError)"

definition predicted_da ::
  "(fval list \<Rightarrow> 'c) \<Rightarrow> band list \<Rightarrow> nat \<Rightarrow> nat \<Rightarrow> pixel list \<Rightarrow> error + 'c list list" where
  "predicted_da model variables ny nx median =
     reshape ny nx (predict model (fillna (stacked_arrays variables median)))"

section \<open>Coastal change labels\<close>

text \<open>
  A point carries the rate, standard error and p-value of its regression. The label is
  built for every point, then overwritten where the p-value is above 0.05. Number
  formatting (\<^verbatim>\<open>:.2f\<close>, \<^verbatim>\<open>:.1f\<close>) is the parameter \<open>fmt\<close>, and \<open>since\<close> is the
  printed first year of the contours.
\<close>

record point =
  rate_time :: fval
  se_time :: fval
  sig_time :: fval

definition rate_label :: "(nat \<Rightarrow> fval \<Rightarrow> string) \<Rightarrow> string \<Rightarrow> point \<Rightarrow> string" where
  "rate_label fmt since x =
     ''<h4>This coastline has ''
     @ (if flt (rate_time x) (Fin 0) then ''<b>retreated</b>'' else ''<b>grown</b>'')
     @ '' by</br><b>'' @ fmt 2 (rate_time x) @ '' m ('' @ [CHR 0xB1] @ fmt 1 (se_time x)
     @ '') per year</b> since <b>'' @ since @ ''</b></h4>''"

definition no_trend_label :: string where
  "no_trend_label = ''<h4>No significant trend of retreat or growth)</h4>''"

definition coastal_change ::
  "(nat \<Rightarrow> fval \<Rightarrow> string) \<Rightarrow> string \<Rightarrow> point list \<Rightarrow> (point \<times> string) list" where
  "coastal_change fmt since points_gdf =
     (let labelled = map (\<lambda>x. (x, rate_label fmt since x)) points_gdf
      in map (\<lambda>(x, l). (x, if fgt (sig_time x) (Fin 0.05) then no_trend_label else l))
           labelled)"

section \<open>Example inputs\<close>

text \<open>
  Raw pixels for the worked examples below. Sentinel-2: a clear vegetation pixel (class
  4) with digital number 500 in every band, a bright one with 20000, and one whose
  green and swir16 agree while nir08 is larger. Landsat: a clear pixel (no cloud or
  shadow bit) with digital number 10000, and a dark one with 100.
\<close>

definition ex_s2_clear :: raw_pixel where
  "ex_s2_clear = (\<lambda>b. if b = Scl then 4 else 500)"

definition ex_s2_bright :: raw_pixel where
  "ex_s2_bright = (\<lambda>b. if b = Scl then 4 else 20000)"

definition ex_s2_mvi :: raw_pixel where
  "ex_s2_mvi = (\<lambda>b. if b = Nir08 then 5000 else if b = Scl then 4 else 2000)"

definition ex_landsat_clear :: raw_pixel where
  "ex_landsat_clear = (\<lambda>b. if b = QaPixel then 21824 else 10000)"

definition ex_landsat_dark :: raw_pixel where
  "ex_landsat_dark = (\<lambda>b. if b = QaPixel then 21824 else 100)"

text \<open>
  A tide series with one tide value per time-step: eleven days with the heights 0 to
  10 in mixed order. On it the library's quantile returns 3.0 at 0.3 and 7.0 at 0.7;
  \<open>ex_quantile\<close> stands for the library on this series and raises on an empty one.
  A tide grid with two pixels on each of three days. Datasets on the same days as the
  tides, whose pixels are tagged by numbers. A training array of three rows, the
  second with an absent feature.
\<close>

definition ex_tides :: "real dataset" where
  "ex_tides =
     [((2024, 1), [5]), ((2024, 2), [0]), ((2024, 3), [9]), ((2024, 4), [2]),
      ((2024, 5), [7]), ((2024, 6), [1]), ((2024, 7), [10]), ((2024, 8), [3]),
      ((2024, 9), [8]), ((2024, 10), [4]), ((2024, 11), [6])]"

definition ex_quantile :: "real list \<Rightarrow> real list \<Rightarrow> error + fval list" where
  "ex_quantile samples qs = (if samples = [] then Inl AxisError else Inr [Fin 3, Fin 7])"

definition ex_scenes11 :: "nat dataset" where
  "ex_scenes11 =
     [((2024, 1), [10]), ((2024, 2), [20]), ((2024, 3), [30]), ((2024, 4), [40]),
      ((2024, 5), [50]), ((2024, 6), [60]), ((2024, 7), [70]), ((2024, 8), [80]),
      ((2024, 9), [90]), ((2024, 10), [100]), ((2024, 11), [110])]"

definition ex_tides_hires :: "real dataset" where
  "ex_tides_hires = [((2024, 1), [2, 0.5]), ((2024, 2), [1.5, 3]), ((2024, 3), [- 1, 1])]"

definition ex_training_array :: "training_row list" where
  "ex_training_array =
     [\<lparr>row_index = 0, Class = Fin 1, training_values = [Fin 0.1, Fin 0.2]\<rparr>,
      \<lparr>row_index = 1, Class = Fin 2, training_values = [NaN, Fin 0.3]\<rparr>,
      \<lparr>row_index = 2, Class = Fin 1, training_values = [Fin 0.4, Fin 0.5]\<rparr>]"

definition ex_scenes2 :: "nat dataset" where
  "ex_scenes2 = [((2024, 1), [10, 11]), ((2024, 2), [20, 21]), ((2024, 3), [30, 31])]"

section \<open>Properties of samples\<close>

lemma flt_Fin: "flt (Fin a) (Fin b) = (a < b)"
  by (auto simp: flt_def less_fval_def)

lemma fgt_Fin: "fgt (Fin a) (Fin b) = (b < a)"
  by (simp add: fgt_def flt_Fin)

lemma clip_Fin: "lo \<le> hi \<Longrightarrow> clip lo hi (Fin v) = Fin (min (max v lo) hi)"
  by (simp add: clip_def min_def max_def)

lemma clip_NaN: "clip lo hi NaN = NaN"
  by (simp add: clip_def)

lemma ml_scaled_eq:
  "ml_scaled flags px b =
     (if px Scl \<in> set flags \<or> px b = 0 then NaN
      else Fin (min (max (real_of_int (px b) * 0.0001) 0) 1))"
  by (simp add: ml_scaled_def ml_masked_def ml_cloud_mask_def xr_where_def fne_def
      clip_Fin clip_NaN)

lemma coast_masked_eq:
  "coast_masked px b =
     (if (px QaPixel AND 24) \<noteq> 0 \<or> px Red = 0 \<or> px b = 0 then NaN
      else Fin (min (max (real_of_int (px b) * 0.0000275 + - 0.2) 0) 1))"
  by (simp add: coast_masked_def coast_scaled_def coast_mask_def coast_cloud_mask_def
      coast_nodata_def bitflags_def xr_where_def clip_Fin clip_NaN)

section \<open>Mask and normalize: what a sample becomes\<close>

text \<open>
  C2, as stated, fails: a scaled value outside [0,1] is not made absent. The bright
  Sentinel-2 pixel scales to 2, above the range, and its sample is the number 1; the
  dark Landsat pixel scales to a negative value and its sample is the number 0.
\<close>

theorem mask_normalize_out_of_range_counterexample:
  "real_of_int (ex_s2_bright Red) * 0.0001 > 1
   \<and> ml_scaled mask_flags ex_s2_bright Red = Fin 1
   \<and> real_of_int (ex_landsat_dark Green) * 0.0000275 + - 0.2 < 0
   \<and> coast_masked ex_landsat_dark Green = Fin 0"
  by (simp add: ml_scaled_eq coast_masked_eq ex_s2_bright_def ex_landsat_dark_def
      mask_flags_def)

text \<open>
  C2, amended: a sample is absent exactly when the pixel has one of the invalid
  classification codes or the digital number is null (zero); for Landsat, exactly when
  a cloud or shadow bit is set, the red band is null or the digital number is null.
  Every other sample is present and is the scaled value clamped into [0,1]: the scaled
  value itself when it lies in [0,1], 0 when it is below and 1 when it is above.
\<close>

theorem mask_normalize_sample:
  "(ml_scaled flags px b = NaN \<longleftrightarrow> px Scl \<in> set flags \<or> px b = 0)
   \<and> (px Scl \<notin> set flags \<and> px b \<noteq> 0 \<longrightarrow>
        (0 \<le> real_of_int (px b) * 0.0001 \<and> real_of_int (px b) * 0.0001 \<le> 1 \<longrightarrow>
           ml_scaled flags px b = Fin (real_of_int (px b) * 0.0001))
        \<and> (real_of_int (px b) * 0.0001 < 0 \<longrightarrow> ml_scaled flags px b = Fin 0)
        \<and> (1 < real_of_int (px b) * 0.0001 \<longrightarrow> ml_scaled flags px b = Fin 1))
   \<and> (coast_masked lpx lb = NaN \<longleftrightarrow>
        (lpx QaPixel AND bitflags) \<noteq> 0 \<or> lpx Red = 0 \<or> lpx lb = 0)
   \<and> ((lpx QaPixel AND bitflags) = 0 \<and> lpx Red \<noteq> 0 \<and> lpx lb \<noteq> 0 \<longrightarrow>
        (0 \<le> real_of_int (lpx lb) * 0.0000275 + - 0.2
           \<and> real_of_int (lpx lb) * 0.0000275 + - 0.2 \<le> 1 \<longrightarrow>
           coast_masked lpx lb = Fin (real_of_int (lpx lb) * 0.0000275 + - 0.2))
        \<and> (real_of_int (lpx lb) * 0.0000275 + - 0.2 < 0 \<longrightarrow> coast_masked lpx lb = Fin 0)
        \<and> (1 < real_of_int (lpx lb) * 0.0000275 + - 0.2 \<longrightarrow> coast_masked lpx lb = Fin 1))"
proof -
  have s2: "ml_scaled flags px b = NaN \<longleftrightarrow> px Scl \<in> set flags \<or> px b = 0"
    by (simp add: ml_scaled_eq)
  have s2v: "px Scl \<notin> set flags \<and> px b \<noteq> 0 \<longrightarrow>
        (0 \<le> real_of_int (px b) * 0.0001 \<and> real_of_int (px b) * 0.0001 \<le> 1 \<longrightarrow>
           ml_scaled flags px b = Fin (real_of_int (px b) * 0.0001))
        \<and> (real_of_int (px b) * 0.0001 < 0 \<longrightarrow> ml_scaled flags px b = Fin 0)
        \<and> (1 < real_of_int (px b) * 0.0001 \<longrightarrow> ml_scaled flags px b = Fin 1)"
    by (simp add: ml_scaled_eq min_def max_def)
  have ls: "coast_masked lpx lb = NaN \<longleftrightarrow>
        (lpx QaPixel AND bitflags) \<noteq> 0 \<or> lpx Red = 0 \<or> lpx lb = 0"
    by (simp add: coast_masked_eq bitflags_def)
  have lsv: "(lpx QaPixel AND bitflags) = 0 \<and> lpx Red \<noteq> 0 \<and> lpx lb \<noteq> 0 \<longrightarrow>
        (0 \<le> real_of_int (lpx lb) * 0.0000275 + - 0.2
           \<and> real_of_int (lpx lb) * 0.0000275 + - 0.2 \<le> 1 \<longrightarrow>
           coast_masked lpx lb = Fin (real_of_int (lpx lb) * 0.0000275 + - 0.2))
        \<and> (real_of_int (lpx lb) * 0.0000275 + - 0.2 < 0 \<longrightarrow> coast_masked lpx lb = Fin 0)
        \<and> (1 < real_of_int (lpx lb) * 0.0000275 + - 0.2 \<longrightarrow> coast_masked lpx lb = Fin 1)"
    by (simp add: coast_masked_eq bitflags_def min_def max_def)
  from s2 s2v ls lsv show ?thesis by blast
qed

theorem mask_normalize_sample_witness:
  "ex_s2_clear Scl \<notin> set mask_flags \<and> ex_s2_clear Red \<noteq> 0
   \<and> 0 \<le> real_of_int (ex_s2_clear Red) * 0.0001
   \<and> real_of_int (ex_s2_clear Red) * 0.0001 \<le> 1
   \<and> ml_scaled mask_flags ex_s2_clear Red = Fin 0.05
   \<and> (ex_landsat_clear QaPixel AND bitflags) = 0 \<and> ex_landsat_clear Red \<noteq> 0
   \<and> coast_masked ex_landsat_clear Green = Fin 0.075
   \<and> ml_scaled mask_flags ex_s2_bright Red = Fin 1
   \<and> coast_masked ex_landsat_dark Green = Fin 0"
  using mask_normalize_sample [of mask_flags ex_s2_clear Red ex_landsat_clear Green]
    mask_normalize_sample [of mask_flags ex_s2_bright Red ex_landsat_dark Green]
  by (simp add: ex_s2_clear_def ex_s2_bright_def ex_landsat_clear_def ex_landsat_dark_def
      mask_flags_def bitflags_def)

text \<open>
  C3: in every dataset the mask-and-normalize stage produces, every sample is absent
  or a number in the closed interval [0,1]; no sample is infinite. Stated for the
  Sentinel-2 stage with any classification codes and for the Landsat stage.
\<close>

theorem scaled_present_in_unit_interval:
  "(\<forall>(t, scene)\<in>set (ml_scaled_ds flags data). \<forall>px\<in>set scene. \<forall>b.
       px b = NaN \<or> (\<exists>v. px b = Fin v \<and> 0 \<le> v \<and> v \<le> 1))
   \<and> (\<forall>(t, scene)\<in>set (coast_masked_ds ldata). \<forall>px\<in>set scene. \<forall>b.
       px b = NaN \<or> (\<exists>v. px b = Fin v \<and> 0 \<le> v \<and> v \<le> 1))"
proof -
  have a: "\<And>px b. ml_scaled flags px b = NaN
      \<or> (\<exists>v. ml_scaled flags px b = Fin v \<and> 0 \<le> v \<and> v \<le> 1)"
    by (simp add: ml_scaled_eq)
  have b: "\<And>px b. coast_masked px b = NaN
      \<or> (\<exists>v. coast_masked px b = Fin v \<and> 0 \<le> v \<and> v \<le> 1)"
    by (simp add: coast_masked_eq)
  have "\<forall>(t, scene)\<in>set (ml_scaled_ds flags data). \<forall>px\<in>set scene. \<forall>b.
       px b = NaN \<or> (\<exists>v. px b = Fin v \<and> 0 \<le> v \<and> v \<le> 1)"
    unfolding ml_scaled_ds_def using a by fastforce
  moreover have "\<forall>(t, scene)\<in>set (coast_masked_ds ldata). \<forall>px\<in>set scene. \<forall>b.
       px b = NaN \<or> (\<exists>v. px b = Fin v \<and> 0 \<le> v \<and> v \<le> 1)"
    unfolding coast_masked_ds_def using b by fastforce
  ultimately show ?thesis by blast
qed

theorem scaled_present_in_unit_interval_witness:
  "((2024, 180), [ml_scaled mask_flags ex_s2_clear])
     \<in> set (ml_scaled_ds mask_flags [((2024, 180), [ex_s2_clear])])
   \<and> ml_scaled mask_flags ex_s2_clear Red = Fin 0.05
   \<and> (0::real) \<le> 0.05 \<and> (0.05::real) \<le> 1
   \<and> ((2024, 180), [coast_masked ex_landsat_clear])
     \<in> set (coast_masked_ds [((2024, 180), [ex_landsat_clear])])
   \<and> coast_masked ex_landsat_clear Green = Fin 0.075
   \<and> (0::real) \<le> 0.075 \<and> (0.075::real) \<le> 1"
  using scaled_present_in_unit_interval
    [of mask_flags "[((2024, 180), [ex_s2_clear])]" "[((2024, 180), [ex_landsat_clear])]"]
  by (simp add: ml_scaled_ds_def coast_masked_ds_def ml_scaled_eq coast_masked_eq
      ex_s2_clear_def ex_landsat_clear_def mask_flags_def)

section \<open>Indices\<close>

text \<open>
  C7: swapping the two bands of a normalized difference negates the result exactly.
  It holds for all samples, present or not: the negation of an absent value is absent.
\<close>

theorem normalized_difference_antisymmetric:
  "normalized_difference a b = fneg (normalized_difference b a)"
  by (cases a; cases b)
     (auto simp: normalized_difference_def fsub_def add.commute minus_divide_left)

section \<open>Temporal median: absent samples and order of time-steps\<close>

lemma sort_mset_cong: "mset xs = mset ys \<Longrightarrow> sort xs = sort (ys :: 'a::linorder list)"
  by (metis sorted_list_of_multiset_mset)

lemma nanmedian_mset: "mset xs = mset ys \<Longrightarrow> nanmedian xs = nanmedian ys"
proof -
  assume h: "mset xs = mset ys"
  have "mset (filter (\<lambda>v. v \<noteq> NaN) xs) = mset (filter (\<lambda>v. v \<noteq> NaN) ys)"
    using h by simp
  then have "sort (filter (\<lambda>v. v \<noteq> NaN) xs) = sort (filter (\<lambda>v. v \<noteq> NaN) ys)"
    by (rule sort_mset_cong)
  then show ?thesis by (simp add: nanmedian_def)
qed

lemma median_time_mset:
  assumes "mset ds' = mset ds"
  shows "median_time npix ds' = median_time npix ds"
proof -
  have "\<And>f. mset (map f ds') = mset (map f ds)"
    using assms by simp
  then have "\<And>f. nanmedian (map f ds') = nanmedian (map f ds)"
    by (rule nanmedian_mset)
  then show ?thesis by (simp add: median_time_def)
qed

lemma grouped_by_year_mset:
  assumes "mset ds' = mset ds"
  shows "grouped_by_year npix band ds' = grouped_by_year npix band ds"
proof -
  have s: "set ds' = set ds" using assms by (rule mset_eq_setD)
  have "sort (remdups (map (\<lambda>(t, scene). year t) ds')) = sort (remdups (map (\<lambda>(t, scene). year t) ds))"
    using s by (metis (no_types) sorted_list_of_set_sort_remdups set_map)
  moreover have "\<And>P. median_time npix (filter P ds') = median_time npix (filter P ds)"
    by (rule median_time_mset) (simp add: assms)
  ultimately show ?thesis by (simp add: grouped_by_year_def)
qed

lemma nanmedian_filter: "nanmedian (filter (\<lambda>v. v \<noteq> NaN) xs) = nanmedian xs"
  by (simp add: nanmedian_def)

lemma median_time_nth:
  "i < npix \<Longrightarrow> (median_time npix ds ! i) bnd =
     nanmedian (filter (\<lambda>v. v \<noteq> NaN) (map (\<lambda>(t, scene). (scene ! i) bnd) ds))"
  by (simp add: median_time_def nanmedian_filter)

text \<open>
  C4, as stated, fails for the MVI formula: where green and swir16 agree and nir08
  differs, the division by zero gives an infinity that \<open>clip(-1, 1)\<close> turns into 1 or
  -1, a present value. The example pixel has green = swir16 = 0.2 and nir08 = 0.5.
\<close>

theorem index_division_by_zero_counterexample:
  "fsub (ml_scaled mask_flags ex_s2_mvi Swir16) (ml_scaled mask_flags ex_s2_mvi Green) = Fin 0
   \<and> mvi (ml_scaled mask_flags ex_s2_mvi) = Fin 1"
  by (simp add: mvi_def ml_scaled_eq mask_flags_def fsub_def clip_def ex_s2_mvi_def)

text \<open>
  C4, amended: in a normalized-difference index of non-negative band values a zero
  denominator yields an absent value, and so does an absent operand, neither zero nor
  an error; the mean of two indices is absent when one of them is. In the MVI formula
  an absent operand yields an absent value, and a zero
  denominator yields an absent value when the numerator is zero too; with a non-zero
  numerator the quotient is infinite and is clipped to 1 or -1. The per-pixel temporal
  median that follows ignores absent values: it reduces over the present values at each
  pixel only.
\<close>

theorem index_division_by_zero:
  "(0 \<le> a \<and> 0 \<le> b \<and> a + b = 0 \<longrightarrow> normalized_difference (Fin a) (Fin b) = NaN)
   \<and> normalized_difference NaN y = NaN \<and> normalized_difference x NaN = NaN
   \<and> (px Swir16 = Fin g \<and> px Green = Fin g \<and> px Nir08 = Fin n \<longrightarrow>
        mvi px = (if n = g then NaN else if g < n then Fin 1 else Fin (- 1)))
   \<and> (px Nir08 = NaN \<or> px Green = NaN \<or> px Swir16 = NaN \<longrightarrow> mvi px = NaN)
   \<and> (mndwi px = NaN \<or> ndwi px = NaN \<longrightarrow> combined px = NaN)
   \<and> (i < npix \<longrightarrow>
        (median_time npix ds ! i) bnd =
          nanmedian (filter (\<lambda>v. v \<noteq> NaN) (map (\<lambda>(t, scene). (scene ! i) bnd) ds)))"
proof -
  have nd0: "0 \<le> a \<and> 0 \<le> b \<and> a + b = 0 \<longrightarrow> normalized_difference (Fin a) (Fin b) = NaN"
    by (auto simp: normalized_difference_def fsub_def)
  have ndl: "normalized_difference NaN y = NaN"
    by (simp add: normalized_difference_def fsub_def)
  have ndr: "normalized_difference x NaN = NaN"
    by (cases x) (simp_all add: normalized_difference_def fsub_def)
  have m0: "px Swir16 = Fin g \<and> px Green = Fin g \<and> px Nir08 = Fin n \<longrightarrow>
        mvi px = (if n = g then NaN else if g < n then Fin 1 else Fin (- 1))"
    by (auto simp: mvi_def fsub_def clip_def)
  have mn: "px Nir08 = NaN \<or> px Green = NaN \<or> px Swir16 = NaN \<longrightarrow> mvi px = NaN"
  proof (cases "px Nir08"; cases "px Green"; cases "px Swir16")
  qed (auto simp: mvi_def fsub_def clip_def)
  have cb: "mndwi px = NaN \<or> ndwi px = NaN \<longrightarrow> combined px = NaN"
    by (cases "mndwi px"; cases "ndwi px") (simp_all add: combined_def)
  have md: "i < npix \<longrightarrow>
        (median_time npix ds ! i) bnd =
          nanmedian (filter (\<lambda>v. v \<noteq> NaN) (map (\<lambda>(t, scene). (scene ! i) bnd) ds))"
    by (simp add: median_time_nth)
  from nd0 ndl ndr m0 mn cb md show ?thesis by blast
qed

theorem index_division_by_zero_witness:
  "(0::real) \<le> 0 \<and> (0::real) + 0 = 0 \<and> normalized_difference (Fin 0) (Fin 0) = NaN
   \<and> ml_scaled mask_flags ex_s2_mvi Swir16 = Fin 0.2
   \<and> ml_scaled mask_flags ex_s2_mvi Green = Fin 0.2
   \<and> ml_scaled mask_flags ex_s2_mvi Nir08 = Fin 0.5
   \<and> mvi (ml_scaled mask_flags ex_s2_mvi) = Fin 1
   \<and> (0::nat) < 1
   \<and> (median_time 1
         [((2024, 1), [\<lambda>b. Fin 1]), ((2024, 2), [\<lambda>b. NaN]), ((2024, 3), [\<lambda>b. Fin 3])] ! 0) Red
       = Fin 2"
  using index_division_by_zero [of 0 0 NaN NaN "ml_scaled mask_flags ex_s2_mvi" "0.2" "0.5" 0 1
      "[((2024, 1), [\<lambda>b. Fin 1]), ((2024, 2), [\<lambda>b. NaN]), ((2024, 3), [\<lambda>b. Fin 3])]" Red]
  by (simp add: ml_scaled_eq ex_s2_mvi_def mask_flags_def nanmedian_def)

text \<open>
  C8: the temporal median composite does not depend on the order of the time-steps,
  pixel for pixel; neither does the median grouped by year. A permutation of the
  time-steps is a list with the same multiset of time-steps.
\<close>

theorem median_time_permutation_invariant:
  "mset ds' = mset ds \<Longrightarrow>
     median_time npix ds' = median_time npix ds
     \<and> grouped_by_year npix bnd ds' = grouped_by_year npix bnd ds"
  by (intro conjI median_time_mset grouped_by_year_mset)

theorem median_time_permutation_invariant_witness:
  "mset [((2024, 9), [\<lambda>b. NaN]), ((2023, 1), [\<lambda>b. Fin 1]), ((2024, 1), [\<lambda>b. Fin 2])]
     = mset [((2023, 1), [\<lambda>b. Fin 1]), ((2024, 1), [\<lambda>b. Fin 2]), ((2024, 9), [\<lambda>b. NaN])]
   \<and> median_time 1 [((2024, 9), [\<lambda>b. NaN]), ((2023, 1), [\<lambda>b. Fin 1]), ((2024, 1), [\<lambda>b. Fin 2])]
     = median_time 1 [((2023, 1), [\<lambda>b. Fin 1]), ((2024, 1), [\<lambda>b. Fin 2]), ((2024, 9), [\<lambda>b. NaN])]
   \<and> grouped_by_year 1 Red
        [((2024, 9), [\<lambda>b. NaN]), ((2023, 1), [\<lambda>b. Fin 1]), ((2024, 1), [\<lambda>b. Fin 2])]
     = [(2023, [Fin 1]), (2024, [Fin 2])]"
  using median_time_permutation_invariant
    [of "[((2024, 9), [\<lambda>b. NaN]), ((2023, 1), [\<lambda>b. Fin 1]), ((2024, 1), [\<lambda>b. Fin 2])]"
        "[((2023, 1), [\<lambda>b. Fin 1]), ((2024, 1), [\<lambda>b. Fin 2]), ((2024, 9), [\<lambda>b. NaN])]"
        1 Red]
  by (simp add: grouped_by_year_def median_time_def nanmedian_def year_def)

section \<open>Tide selection\<close>

lemma ex_low_scenes: "low_scenes (Fin 3) ex_tides = [(2024, 2), (2024, 4), (2024, 6)]"
  by (simp add: low_scenes_def where_drop_time_def ex_tides_def flt_Fin)

lemma ex_high_scenes: "high_scenes (Fin 7) ex_tides = [(2024, 3), (2024, 7), (2024, 9)]"
  by (simp add: high_scenes_def where_drop_time_def ex_tides_def fgt_Fin)

lemma ex_spec_middle_scenes:
  "spec_middle_scenes (Fin 3) (Fin 7) ex_tides = [(2024, 1), (2024, 10), (2024, 11)]"
  by (simp add: spec_middle_scenes_def where_drop_time_def ex_tides_def fgt_Fin flt_Fin)

lemma ex_quantile_tides:
  "ex_quantile (concat (map snd ex_tides)) [0.3, 0.7] = Inr [Fin 3, Fin 7]"
  by (simp add: ex_quantile_def ex_tides_def)

lemma ex_lowest_highest: "lowest_highest ex_quantile ex_tides = Inr (Fin 3, Fin 7)"
  using ex_quantile_tides by (simp add: lowest_highest_def)

lemma ex_data_low:
  "data_low ex_quantile ex_scenes11 ex_tides
     = Inr [((2024, 2), [20]), ((2024, 4), [40]), ((2024, 6), [60])]"
  by (simp add: data_low_def ex_lowest_highest ex_low_scenes) (simp add: ex_scenes11_def)

lemma ex_data_high:
  "data_high ex_quantile ex_scenes11 ex_tides
     = Inr [((2024, 3), [30]), ((2024, 7), [70]), ((2024, 9), [90])]"
  by (simp add: data_high_def ex_lowest_highest ex_high_scenes) (simp add: ex_scenes11_def)

text \<open>
  C1, as stated, fails: no selection of the code retains the time-steps strictly
  between the 30th and the 70th percentile. On the eleven-day series the boundaries
  are 3 and 7; the low-tide selection holds the days with the heights 0, 2, 1, the
  high-tide selection the days with 9, 10, 8, and the days with the heights 5, 4, 6,
  which the spec asks for, are in neither.
\<close>

theorem tide_quantile_selection_counterexample:
  "low_scenes (Fin 3) ex_tides = [(2024, 2), (2024, 4), (2024, 6)]
   \<and> high_scenes (Fin 7) ex_tides = [(2024, 3), (2024, 7), (2024, 9)]
   \<and> spec_middle_scenes (Fin 3) (Fin 7) ex_tides = [(2024, 1), (2024, 10), (2024, 11)]
   \<and> data_low ex_quantile ex_scenes11 ex_tides
      = Inr [((2024, 2), [20]), ((2024, 4), [40]), ((2024, 6), [60])]
   \<and> data_high ex_quantile ex_scenes11 ex_tides
      = Inr [((2024, 3), [30]), ((2024, 7), [70]), ((2024, 9), [90])]"
  using ex_low_scenes ex_high_scenes ex_spec_middle_scenes ex_data_low ex_data_high
  by blast

lemma sel_time_sub:
  "distinct (map fst ds) \<Longrightarrow> set ys \<subseteq> set ds \<Longrightarrow> sel_time ds (map fst ys) = Inr ys"
proof (induction ys)
  case Nil
  then show ?case by simp
next
  case (Cons y ys)
  obtain t scene where y: "y = (t, scene)" by (cases y)
  have "map_of ds t = Some scene"
    using Cons.prems y by (simp add: map_of_is_SomeI)
  then show ?case using Cons y by simp
qed

lemma where_drop_time_nths:
  "where_drop_time cond tides =
     map fst (nths tides {i. i < length tides \<and> (\<exists>v\<in>set (snd (tides ! i)). cond v)})"
proof -
  have "filter (\<lambda>(t, vs). \<exists>v\<in>set vs. cond v) tides =
      nths tides {i. i < length tides \<and> (case tides ! i of (t, vs) \<Rightarrow> \<exists>v\<in>set vs. cond v)}"
    by (rule filter_eq_nths)
  then show ?thesis by (simp add: where_drop_time_def case_prod_beta)
qed

lemma sel_time_where_drop:
  assumes "map fst masked = map fst tides" and "distinct (map fst tides)"
  shows "sel_time masked (where_drop_time cond tides) =
     Inr (nths masked {i. i < length tides \<and> (\<exists>v\<in>set (snd (tides ! i)). cond v)})"
proof -
  let ?I = "{i. i < length tides \<and> (\<exists>v\<in>set (snd (tides ! i)). cond v)}"
  have "where_drop_time cond tides = nths (map fst tides) ?I"
    by (simp add: where_drop_time_nths nths_map)
  also have "\<dots> = map fst (nths masked ?I)"
    by (simp add: assms(1) [symmetric] nths_map)
  finally have "where_drop_time cond tides = map fst (nths masked ?I)" .
  moreover have "sel_time masked (map fst (nths masked ?I)) = Inr (nths masked ?I)"
    by (rule sel_time_sub) (simp_all add: assms set_nths_subset)
  ultimately show ?thesis by simp
qed

lemma where_drop_time_mem:
  assumes "distinct (map fst tides)" and "(t, vs) \<in> set tides"
  shows "t \<in> set (where_drop_time cond tides) \<longleftrightarrow> (\<exists>v\<in>set vs. cond v)"
proof
  assume "t \<in> set (where_drop_time cond tides)"
  then have "\<exists>vs'. (t, vs') \<in> set tides \<and> (\<exists>v\<in>set vs'. cond v)"
    by (auto simp: where_drop_time_def)
  then obtain vs' where m: "(t, vs') \<in> set tides" and c: "\<exists>v\<in>set vs'. cond v"
    by blast
  have "vs' = vs"
    using assms m by (meson eq_key_imp_eq_value)
  then show "\<exists>v\<in>set vs. cond v" using c by simp
next
  assume "\<exists>v\<in>set vs. cond v"
  then show "t \<in> set (where_drop_time cond tides)"
    using assms(2) by (force simp: where_drop_time_def)
qed

lemma lowest_highest_Inr:
  "quantile (concat (map snd tides)) [0.3, 0.7] = Inr [lowest, highest] \<Longrightarrow>
     lowest_highest quantile tides = Inr (lowest, highest)"
  by (simp add: lowest_highest_def)

lemma lowest_highest_Inl:
  "quantile (concat (map snd tides)) [0.3, 0.7] = Inl e \<Longrightarrow>
     lowest_highest quantile tides = Inl e"
  by (simp add: lowest_highest_def)

text \<open>
  C1, amended: the tide-quantile filter selects the outer tides, not the middle 40%.
  For every tide series whose time labels are distinct and are those of the dataset,
  with the boundaries that the quantile call at 0.3 and 0.7 returns for that same
  series, the low-tide selection retains exactly the time-steps with a tide value
  strictly below the lower boundary and the high-tide selection exactly those with a
  tide value strictly above the upper boundary, in the order of the series and no other
  time-step; a time-step whose tide values all lie strictly between the two boundaries
  is retained by neither. When the quantile call raises, as it does on an empty
  series, both selections raise the same error.
\<close>

theorem tide_quantile_selection:
  "(quantile (concat (map snd tides_lowres)) [0.3, 0.7] = Inl e \<longrightarrow>
      data_low quantile masked tides_lowres = Inl e
      \<and> data_high quantile masked tides_lowres = Inl e)
   \<and> (map fst masked = map fst tides_lowres \<and> distinct (map fst tides_lowres)
       \<and> quantile (concat (map snd tides_lowres)) [0.3, 0.7] = Inr [lowest, highest] \<longrightarrow>
      data_low quantile masked tides_lowres =
        Inr (nths masked {i. i < length tides_lowres
               \<and> (\<exists>v\<in>set (snd (tides_lowres ! i)). flt (Fin v) lowest)})
      \<and> data_high quantile masked tides_lowres =
        Inr (nths masked {i. i < length tides_lowres
               \<and> (\<exists>v\<in>set (snd (tides_lowres ! i)). fgt (Fin v) highest)})
      \<and> (\<forall>(t, vs)\<in>set tides_lowres.
           (\<forall>v\<in>set vs. fgt (Fin v) lowest \<and> flt (Fin v) highest)
           \<longrightarrow> t \<notin> set (low_scenes lowest tides_lowres)
               \<and> t \<notin> set (high_scenes highest tides_lowres)))"
proof (intro conjI impI)
  assume "quantile (concat (map snd tides_lowres)) [0.3, 0.7] = Inl e"
  then have q: "lowest_highest quantile tides_lowres = Inl e"
    by (rule lowest_highest_Inl)
  show "data_low quantile masked tides_lowres = Inl e"
    by (simp add: data_low_def q)
  show "data_high quantile masked tides_lowres = Inl e"
    by (simp add: data_high_def q)
next
  assume a: "map fst masked = map fst tides_lowres \<and> distinct (map fst tides_lowres)
       \<and> quantile (concat (map snd tides_lowres)) [0.3, 0.7] = Inr [lowest, highest]"
  then have ax: "map fst masked = map fst tides_lowres"
    and di: "distinct (map fst tides_lowres)"
    by simp_all
  have q: "lowest_highest quantile tides_lowres = Inr (lowest, highest)"
    using a by (simp add: lowest_highest_Inr)
  have "sel_time masked (low_scenes lowest tides_lowres) =
        Inr (nths masked {i. i < length tides_lowres
               \<and> (\<exists>v\<in>set (snd (tides_lowres ! i)). flt (Fin v) lowest)})"
    unfolding low_scenes_def using ax di by (rule sel_time_where_drop)
  then show "data_low quantile masked tides_lowres =
        Inr (nths masked {i. i < length tides_lowres
               \<and> (\<exists>v\<in>set (snd (tides_lowres ! i)). flt (Fin v) lowest)})"
    by (simp add: data_low_def q)
  have "sel_time masked (high_scenes highest tides_lowres) =
        Inr (nths masked {i. i < length tides_lowres
               \<and> (\<exists>v\<in>set (snd (tides_lowres ! i)). fgt (Fin v) highest)})"
    unfolding high_scenes_def using ax di by (rule sel_time_where_drop)
  then show "data_high quantile masked tides_lowres =
        Inr (nths masked {i. i < length tides_lowres
               \<and> (\<exists>v\<in>set (snd (tides_lowres ! i)). fgt (Fin v) highest)})"
    by (simp add: data_high_def q)
  have anti: "\<And>x y. fgt x y \<Longrightarrow> \<not> flt x y"
    by (auto simp: fgt_def flt_def)
  show "\<forall>(t, vs)\<in>set tides_lowres.
           (\<forall>v\<in>set vs. fgt (Fin v) lowest \<and> flt (Fin v) highest)
           \<longrightarrow> t \<notin> set (low_scenes lowest tides_lowres)
               \<and> t \<notin> set (high_scenes highest tides_lowres)"
  proof (clarify)
    fix t vs
    assume m: "(t, vs) \<in> set tides_lowres"
      and b: "\<forall>v\<in>set vs. fgt (Fin v) lowest \<and> flt (Fin v) highest"
    have "\<not> (\<exists>v\<in>set vs. flt (Fin v) lowest)"
      using b anti by blast
    then have l: "t \<notin> set (low_scenes lowest tides_lowres)"
      unfolding low_scenes_def using where_drop_time_mem [OF di m] by simp
    have "\<not> (\<exists>v\<in>set vs. fgt (Fin v) highest)"
      using b anti by blast
    then have h: "t \<notin> set (high_scenes highest tides_lowres)"
      unfolding high_scenes_def using where_drop_time_mem [OF di m] by simp
    from l h show "t \<notin> set (low_scenes lowest tides_lowres)
        \<and> t \<notin> set (high_scenes highest tides_lowres)"
      by simp
  qed
qed

theorem tide_quantile_selection_witness:
  "map fst ex_scenes11 = map fst ex_tides \<and> distinct (map fst ex_tides)
   \<and> ex_quantile (concat (map snd ex_tides)) [0.3, 0.7] = Inr [Fin 3, Fin 7]
   \<and> data_low ex_quantile ex_scenes11 ex_tides
      = Inr [((2024, 2), [20]), ((2024, 4), [40]), ((2024, 6), [60])]
   \<and> data_high ex_quantile ex_scenes11 ex_tides
      = Inr [((2024, 3), [30]), ((2024, 7), [70]), ((2024, 9), [90])]
   \<and> nths ex_scenes11 {i. i < length ex_tides
          \<and> (\<exists>v\<in>set (snd (ex_tides ! i)). flt (Fin v) (Fin 3))}
      = [((2024, 2), [20]), ((2024, 4), [40]), ((2024, 6), [60])]
   \<and> nths ex_scenes11 {i. i < length ex_tides
          \<and> (\<exists>v\<in>set (snd (ex_tides ! i)). fgt (Fin v) (Fin 7))}
      = [((2024, 3), [30]), ((2024, 7), [70]), ((2024, 9), [90])]
   \<and> ex_quantile (concat (map snd [])) [0.3, 0.7] = Inl AxisError
   \<and> data_low ex_quantile ex_scenes11 [] = Inl AxisError
   \<and> data_high ex_quantile ex_scenes11 [] = Inl AxisError"
proof -
  have h1: "map fst ex_scenes11 = map fst ex_tides"
    by (simp add: ex_scenes11_def ex_tides_def)
  have h2: "distinct (map fst ex_tides)"
    by (simp add: ex_tides_def)
  note h3 = ex_quantile_tides
  note lo = ex_data_low
  note hi = ex_data_high
  note t = tide_quantile_selection
    [of ex_quantile ex_tides _ ex_scenes11 "Fin 3" "Fin 7", THEN conjunct2, rule_format,
      OF conjI [OF h1 conjI [OF h2 h3]]]
  have nlo: "nths ex_scenes11 {i. i < length ex_tides
          \<and> (\<exists>v\<in>set (snd (ex_tides ! i)). flt (Fin v) (Fin 3))}
      = [((2024, 2), [20]), ((2024, 4), [40]), ((2024, 6), [60])]"
    using t [THEN conjunct1] lo by simp
  have nhi: "nths ex_scenes11 {i. i < length ex_tides
          \<and> (\<exists>v\<in>set (snd (ex_tides ! i)). fgt (Fin v) (Fin 7))}
      = [((2024, 3), [30]), ((2024, 7), [70]), ((2024, 9), [90])]"
    using t [THEN conjunct2, THEN conjunct1] hi by simp
  have e3: "ex_quantile (concat (map snd [])) [0.3, 0.7] = Inl AxisError"
    by (simp add: ex_quantile_def)
  note r = tide_quantile_selection
    [of ex_quantile "[]" AxisError ex_scenes11, THEN conjunct1, rule_format, OF e3]
  from h1 h2 h3 lo hi nlo nhi e3 r show ?thesis by blast
qed

lemma sel_bool_nths:
  assumes "length keep = length ds"
  shows "map fst (filter snd (zip ds keep)) = nths ds {i. i < length ds \<and> keep ! i}"
proof -
  have "filter snd (zip ds keep) =
      nths (zip ds keep) {i. i < length (zip ds keep) \<and> snd (zip ds keep ! i)}"
    by (rule filter_eq_nths)
  moreover have "{i. i < length (zip ds keep) \<and> snd (zip ds keep ! i)}
      = {i. i < length ds \<and> keep ! i}"
    using assms by auto
  ultimately have "map fst (filter snd (zip ds keep)) =
      nths (map fst (zip ds keep)) {i. i < length ds \<and> keep ! i}"
    by (simp add: nths_map)
  then show ?thesis using assms by simp
qed

lemma sum_xy_pos: "sum_xy bs > 0 \<longleftrightarrow> (\<exists>b\<in>set bs. b)"
  by (simp add: sum_xy_def filter_empty_conv)

lemma tide_bool_keep:
  assumes "i < length tides_hires"
  shows "map (\<lambda>(t, bs). sum_xy bs > 0) (tide_bool cmin cmax tides_hires) ! i
     \<longleftrightarrow> (\<exists>v\<in>set (snd (tides_hires ! i)). cmin \<le> v \<and> v \<le> cmax)"
  using assms by (auto simp: tide_bool_def sum_xy_pos case_prod_beta)

text \<open>
  C6: the tide filter keeps exactly the time-steps in which at least one pixel has a
  tide height within the cutoffs; a time-step in which no pixel has is removed from the
  time axis. The indices and the yearly median are computed from the result
  (\<open>coast_grouped_by_year\<close>). The tide grid has the time axis of the dataset.
\<close>

theorem tide_filter_drops_empty_scenes:
  assumes "length tides_hires = length masked"
  shows "data_filtered tide_cutoff_min tide_cutoff_max masked tides_hires =
     Inr (nths masked {i. i < length masked
            \<and> (\<exists>v\<in>set (snd (tides_hires ! i)). tide_cutoff_min \<le> v \<and> v \<le> tide_cutoff_max)})"
proof -
  let ?keep = "map (\<lambda>(t, bs). sum_xy bs > 0)
      (tide_bool tide_cutoff_min tide_cutoff_max tides_hires)"
  have len: "length ?keep = length masked"
    using assms by (simp add: tide_bool_def)
  have "{i. i < length masked \<and> ?keep ! i} = {i. i < length masked
            \<and> (\<exists>v\<in>set (snd (tides_hires ! i)). tide_cutoff_min \<le> v \<and> v \<le> tide_cutoff_max)}"
    using assms tide_bool_keep [of _ tides_hires tide_cutoff_min tide_cutoff_max] by auto
  then have "map fst (filter snd (zip masked ?keep)) = nths masked {i. i < length masked
            \<and> (\<exists>v\<in>set (snd (tides_hires ! i)). tide_cutoff_min \<le> v \<and> v \<le> tide_cutoff_max)}"
    using sel_bool_nths [OF len] by simp
  then show ?thesis
    using len by (simp add: data_filtered_def sel_bool_def)
qed

theorem tide_filter_drops_empty_scenes_witness:
  "length ex_tides_hires = length ex_scenes2
   \<and> data_filtered 0 1 ex_scenes2 ex_tides_hires
      = Inr [((2024, 1), [10, 11]), ((2024, 3), [30, 31])]
   \<and> nths ex_scenes2 {i. i < length ex_scenes2
          \<and> (\<exists>v\<in>set (snd (ex_tides_hires ! i)). 0 \<le> v \<and> v \<le> 1)}
      = [((2024, 1), [10, 11]), ((2024, 3), [30, 31])]"
proof -
  have h: "length ex_tides_hires = length ex_scenes2"
    by (simp add: ex_tides_hires_def ex_scenes2_def)
  have e: "data_filtered 0 1 ex_scenes2 ex_tides_hires
      = Inr [((2024, 1), [10, 11]), ((2024, 3), [30, 31])]"
    by (simp add: data_filtered_def sel_bool_def tide_bool_def sum_xy_def
        ex_tides_hires_def ex_scenes2_def)
  have n: "nths ex_scenes2 {i. i < length ex_scenes2
          \<and> (\<exists>v\<in>set (snd (ex_tides_hires ! i)). 0 \<le> v \<and> v \<le> 1)}
      = [((2024, 1), [10, 11]), ((2024, 3), [30, 31])]"
    using tide_filter_drops_empty_scenes [OF h, of 0 1] e by simp
  from h e n show ?thesis by blast
qed

section \<open>Training array\<close>

lemma dropna_length:
  "length (dropna ta) + length (filter isna_any ta) = length ta"
  unfolding dropna_def using sum_length_filter_compl [of isna_any ta] by simp

text \<open>
  C5: \<open>dropna\<close> removes exactly the rows with a missing value: the number of rows goes
  down by the count of such rows, the retained rows are rows of the input, unchanged
  and in their order, and every retained row has a class and a fully populated feature
  vector. In a TrainingSet every row has its class label; there the removed rows are
  exactly the rows with at least one absent feature value.
\<close>

theorem dropna_rows:
  "length (dropna training_array) + length (filter isna_any training_array)
     = length training_array
   \<and> subseq (dropna training_array) training_array
   \<and> (\<forall>r\<in>set (dropna training_array).
        r \<in> set training_array \<and> Class r \<noteq> NaN \<and> NaN \<notin> set (training_values r))
   \<and> ((\<forall>r\<in>set training_array. Class r \<noteq> NaN) \<longrightarrow>
        dropna training_array
          = filter (\<lambda>r. NaN \<notin> set (training_values r)) training_array
        \<and> length (dropna training_array)
          = length training_array
            - length (filter (\<lambda>r. NaN \<in> set (training_values r)) training_array))"
proof -
  have sub: "subseq (dropna training_array) training_array"
    by (simp add: dropna_def)
  have kept: "\<forall>r\<in>set (dropna training_array).
        r \<in> set training_array \<and> Class r \<noteq> NaN \<and> NaN \<notin> set (training_values r)"
    by (simp add: dropna_def isna_any_def)
  have lab: "(\<forall>r\<in>set training_array. Class r \<noteq> NaN) \<longrightarrow>
        dropna training_array
          = filter (\<lambda>r. NaN \<notin> set (training_values r)) training_array
        \<and> length (dropna training_array)
          = length training_array
            - length (filter (\<lambda>r. NaN \<in> set (training_values r)) training_array)"
  proof
    assume h: "\<forall>r\<in>set training_array. Class r \<noteq> NaN"
    have f: "filter isna_any training_array
        = filter (\<lambda>r. NaN \<in> set (training_values r)) training_array"
      using h by (intro filter_cong) (auto simp: isna_any_def)
    have d: "dropna training_array
        = filter (\<lambda>r. NaN \<notin> set (training_values r)) training_array"
      unfolding dropna_def using h by (intro filter_cong) (auto simp: isna_any_def)
    show "dropna training_array
          = filter (\<lambda>r. NaN \<notin> set (training_values r)) training_array
        \<and> length (dropna training_array)
          = length training_array
            - length (filter (\<lambda>r. NaN \<in> set (training_values r)) training_array)"
      using d f dropna_length [of training_array] by simp
  qed
  from dropna_length [of training_array] sub kept lab show ?thesis by blast
qed

theorem dropna_rows_witness:
  "map Class ex_training_array = [Fin 1, Fin 2, Fin 1]
   \<and> dropna ex_training_array
      = [\<lparr>row_index = 0, Class = Fin 1, training_values = [Fin 0.1, Fin 0.2]\<rparr>,
         \<lparr>row_index = 2, Class = Fin 1, training_values = [Fin 0.4, Fin 0.5]\<rparr>]
   \<and> length (filter (\<lambda>r. NaN \<in> set (training_values r)) ex_training_array) = 1
   \<and> length (dropna ex_training_array) = length ex_training_array - 1"
proof -
  have h: "\<forall>r\<in>set ex_training_array. Class r \<noteq> NaN"
    by (simp add: ex_training_array_def)
  have c: "length (filter (\<lambda>r. NaN \<in> set (training_values r)) ex_training_array) = 1"
    by (simp add: ex_training_array_def)
  have d: "dropna ex_training_array
      = filter (\<lambda>r. NaN \<notin> set (training_values r)) ex_training_array
    \<and> length (dropna ex_training_array)
      = length ex_training_array
        - length (filter (\<lambda>r. NaN \<in> set (training_values r)) ex_training_array)"
    using dropna_rows [of ex_training_array] h by blast
  have e: "filter (\<lambda>r. NaN \<notin> set (training_values r)) ex_training_array
      = [\<lparr>row_index = 0, Class = Fin 1, training_values = [Fin 0.1, Fin 0.2]\<rparr>,
         \<lparr>row_index = 2, Class = Fin 1, training_values = [Fin 0.4, Fin 0.5]\<rparr>]"
    by (simp add: ex_training_array_def)
  have m: "map Class ex_training_array = [Fin 1, Fin 2, Fin 1]"
    by (simp add: ex_training_array_def)
  from d have d1: "dropna ex_training_array
      = filter (\<lambda>r. NaN \<notin> set (training_values r)) ex_training_array"
    by (rule conjunct1)
  from d have d2: "length (dropna ex_training_array)
      = length ex_training_array
        - length (filter (\<lambda>r. NaN \<in> set (training_values r)) ex_training_array)"
    by (rule conjunct2)
  from d1 e have r: "dropna ex_training_array
      = [\<lparr>row_index = 0, Class = Fin 1, training_values = [Fin 0.1, Fin 0.2]\<rparr>,
         \<lparr>row_index = 2, Class = Fin 1, training_values = [Fin 0.4, Fin 0.5]\<rparr>]"
    by (rule trans)
  from d2 c have l: "length (dropna ex_training_array) = length ex_training_array - 1"
    by (simp only:)
  from m r c l show ?thesis by blast
qed

section \<open>Prediction\<close>

lemma grid_index: "y < ny \<Longrightarrow> x < nx \<Longrightarrow> y * nx + x < ny * (nx::nat)"
proof -
  assume y: "y < ny" and x: "x < nx"
  have "y * nx + x < y * nx + nx" using x by simp
  also have "\<dots> = Suc y * nx" by simp
  also have "\<dots> \<le> ny * nx" using y by (intro mult_le_mono1) simp
  finally show ?thesis .
qed

lemma reshape_nth:
  assumes "length flat = ny * nx"
  shows "\<exists>arr. reshape ny nx flat = Inr arr \<and> length arr = ny
     \<and> (\<forall>y<ny. length (arr ! y) = nx \<and> (\<forall>x<nx. arr ! y ! x = flat ! (y * nx + x)))"
proof -
  let ?arr = "map (\<lambda>y. take nx (drop (y * nx) flat)) [0..<ny]"
  have r: "reshape ny nx flat = Inr ?arr"
    using assms by (simp add: reshape_def)
  have "\<forall>y<ny. length (?arr ! y) = nx \<and> (\<forall>x<nx. ?arr ! y ! x = flat ! (y * nx + x))"
  proof (intro allI impI)
    fix y assume y: "y < ny"
    have "Suc y * nx \<le> ny * nx" using y by (intro mult_le_mono1) simp
    then have le: "y * nx + nx \<le> length flat" using assms by simp
    have l: "length (?arr ! y) = nx" using y le by simp
    have "\<forall>x<nx. ?arr ! y ! x = flat ! (y * nx + x)"
      using y le by simp
    with l show "length (?arr ! y) = nx \<and> (\<forall>x<nx. ?arr ! y ! x = flat ! (y * nx + x))"
      by simp
  qed
  with r show ?thesis by simp
qed

text \<open>
  C10: for a composite of \<open>ny * nx\<close> pixels, prediction returns a grid of \<open>ny\<close> rows
  of \<open>nx\<close> labels; the label of pixel \<open>(y, x)\<close> is the classifier's answer on the
  pixel's feature vector with every absent value replaced by 0, and a pixel whose
  features are all absent gets the classifier's answer on the all-zero vector.
\<close>

theorem prediction_fills_absent_with_zero:
  assumes "length median = ny * nx"
  shows "\<exists>arr. predicted_da model variables ny nx median = Inr arr \<and> length arr = ny
     \<and> (\<forall>y<ny. length (arr ! y) = nx
          \<and> (\<forall>x<nx.
               arr ! y ! x = model (map (\<lambda>b. fillna0 ((median ! (y * nx + x)) b)) variables)
               \<and> ((\<forall>b\<in>set variables. (median ! (y * nx + x)) b = NaN) \<longrightarrow>
                    arr ! y ! x = model (replicate (length variables) (Fin 0)))))"
proof -
  let ?flat = "predict model (fillna (stacked_arrays variables median))"
  have len: "length ?flat = ny * nx"
    using assms by (simp add: predict_def fillna_def stacked_arrays_def)
  have flat: "\<And>k. k < ny * nx \<Longrightarrow>
      ?flat ! k = model (map (\<lambda>b. fillna0 ((median ! k) b)) variables)"
    using assms by (simp add: predict_def fillna_def stacked_arrays_def comp_def)
  have zero: "\<And>k. (\<forall>b\<in>set variables. (median ! k) b = NaN) \<Longrightarrow>
      map (\<lambda>b. fillna0 ((median ! k) b)) variables = replicate (length variables) (Fin 0)"
    by (simp add: map_replicate_const [symmetric] fillna0_def)
  obtain arr where arr: "reshape ny nx ?flat = Inr arr" "length arr = ny"
      "\<forall>y<ny. length (arr ! y) = nx \<and> (\<forall>x<nx. arr ! y ! x = ?flat ! (y * nx + x))"
    using reshape_nth [OF len] by blast
  have body: "\<forall>y<ny. length (arr ! y) = nx
          \<and> (\<forall>x<nx.
               arr ! y ! x = model (map (\<lambda>b. fillna0 ((median ! (y * nx + x)) b)) variables)
               \<and> ((\<forall>b\<in>set variables. (median ! (y * nx + x)) b = NaN) \<longrightarrow>
                    arr ! y ! x = model (replicate (length variables) (Fin 0))))"
  proof (intro allI impI conjI)
    fix y assume y: "y < ny"
    show "length (arr ! y) = nx" using arr(3) y by simp
    fix x assume x: "x < nx"
    have k: "y * nx + x < ny * nx" using y x by (rule grid_index)
    show v: "arr ! y ! x = model (map (\<lambda>b. fillna0 ((median ! (y * nx + x)) b)) variables)"
      using arr(3) y x flat [OF k] by simp
    assume "\<forall>b\<in>set variables. (median ! (y * nx + x)) b = NaN"
    then show "arr ! y ! x = model (replicate (length variables) (Fin 0))"
      using v zero by simp
  qed
  show ?thesis
    unfolding predicted_da_def using arr(1) arr(2) body by blast
qed

theorem prediction_fills_absent_with_zero_witness:
  "length [\<lambda>b. NaN, \<lambda>b. Fin 0.3 :: fval] = 1 * 2
   \<and> predicted_da (\<lambda>features. features = [Fin 0, Fin 0]) [Red, Green] 1 2
        [\<lambda>b. NaN, \<lambda>b. Fin 0.3]
      = Inr [[True, False]]"
proof -
  have h: "length [\<lambda>b. NaN, \<lambda>b. Fin 0.3 :: fval] = 1 * 2" by simp
  have e: "predicted_da (\<lambda>features. features = [Fin 0, Fin 0]) [Red, Green] 1 2
        [\<lambda>b. NaN, \<lambda>b. Fin 0.3] = Inr [[True, False]]"
    by (simp add: predicted_da_def reshape_def predict_def fillna_def stacked_arrays_def
        fillna0_def)
  show ?thesis
    using h e prediction_fills_absent_with_zero [OF h, of "\<lambda>features. features = [Fin 0, Fin 0]" "[Red, Green]"]
    by simp
qed

section \<open>Coastal change labels\<close>

text \<open>
  C9: a point whose p-value is above 0.05 is labelled as having no significant trend;
  every other point is labelled with its rate, its standard error and "per year".
\<close>

theorem coastal_change_label:
  "length (coastal_change fmt since points_gdf) = length points_gdf
   \<and> (\<forall>i<length points_gdf.
        fst (coastal_change fmt since points_gdf ! i) = points_gdf ! i
        \<and> (fgt (sig_time (points_gdf ! i)) (Fin 0.05) \<longrightarrow>
             snd (coastal_change fmt since points_gdf ! i)
               = ''<h4>No significant trend of retreat or growth)</h4>'')
        \<and> (\<not> fgt (sig_time (points_gdf ! i)) (Fin 0.05) \<longrightarrow>
             snd (coastal_change fmt since points_gdf ! i)
               = ''<h4>This coastline has ''
                 @ (if flt (rate_time (points_gdf ! i)) (Fin 0)
                    then ''<b>retreated</b>'' else ''<b>grown</b>'')
                 @ '' by</br><b>'' @ fmt 2 (rate_time (points_gdf ! i))
                 @ '' m ('' @ [CHR 0xB1] @ fmt 1 (se_time (points_gdf ! i))
                 @ '') per year</b> since <b>'' @ since @ ''</b></h4>''))"
  by (simp add: coastal_change_def rate_label_def no_trend_label_def)

theorem coastal_change_label_witness:
  "(0::nat) < length [\<lparr>rate_time = Fin (- 1.5), se_time = Fin 0.2, sig_time = Fin 0.01\<rparr>,
                      \<lparr>rate_time = Fin 0.3, se_time = Fin 0.4, sig_time = Fin 0.2\<rparr>]
   \<and> \<not> fgt (Fin 0.01) (Fin 0.05) \<and> fgt (Fin 0.2) (Fin 0.05)
   \<and> map snd (coastal_change (\<lambda>n v. ''#'') ''2019''
        [\<lparr>rate_time = Fin (- 1.5), se_time = Fin 0.2, sig_time = Fin 0.01\<rparr>,
         \<lparr>rate_time = Fin 0.3, se_time = Fin 0.4, sig_time = Fin 0.2\<rparr>])
     = [''<h4>This coastline has <b>retreated</b> by</br><b># m ('' @ [CHR 0xB1]
          @ ''#) per year</b> since <b>2019</b></h4>'',
        ''<h4>No significant trend of retreat or growth)</h4>'']"
  using coastal_change_label [of "\<lambda>n v. ''#''" "''2019''"
        "[\<lparr>rate_time = Fin (- 1.5), se_time = Fin 0.2, sig_time = Fin 0.01\<rparr>,
         \<lparr>rate_time = Fin 0.3, se_time = Fin 0.4, sig_time = Fin 0.2\<rparr>]"]
  by (simp add: coastal_change_def rate_label_def no_trend_label_def fgt_Fin flt_Fin)

end
